theory Spec2Isabelle
  imports Complex_Main
begin

section \<open>Records of the host database\<close>

text \<open>
  The two modules run inside an ERP framework. A record of the database is
  identified by its integer id, and a recordset is the tuple of the ids it
  holds, in order and possibly with repetitions (the framework's \<open>+\<close> on
  recordsets concatenates, \<open>-\<close> removes, \<open>mapped\<close> on a relational field
  unites). A many-to-one field is either empty (falsy) or one record: an
  \<open>option\<close>. A Python float is modelled by the real number it stands for
  (infinities and NaN left out): comparison and \<open>int\<close> are exact on it, while
  \<open>+\<close>, \<open>-\<close> and \<open>/\<close> round, so these three are operations of the host
  (\<open>float_add\<close>, \<open>float_sub\<close>, \<open>float_div\<close>) about which nothing is assumed.
\<close>

type_synonym lot = nat
type_synonym product = nat

datatype tracking = TrackNone | TrackLot | TrackSerial

datatype py_error =
    UserError string
  | ZeroDivisionError
  | IndexError
  | ValueError
  | AttributeError

text \<open>
  A matrix cell (model \<open>mrp.production.serial.matrix.line\<close>): the fields the
  wizard writes and reads.
\<close>

record line =
  component_id :: product
  component_column_name :: string
  lot_qty :: real
  finished_lot_id :: "lot option"
  finished_lot_name :: string
  component_lot_id :: "lot option"

text \<open>
  What the wizard reads from the host and does not define itself: stored
  fields of products and lots, the arithmetic of floats, the library function
  \<open>float_is_zero\<close>, the text Python's \<open>%s\<close> gives for a float, and the method
  \<open>_get_available_and_reserved_quantities\<close> of a matrix cell (declared in the
  cell's model, which is not among the source files).
\<close>

record host =
  product_tracking :: "product \<Rightarrow> tracking"
  product_display_name :: "product \<Rightarrow> string"
  uom_rounding :: "product \<Rightarrow> real"
  lot_name :: "lot \<Rightarrow> string"
  float_add :: "real \<Rightarrow> real \<Rightarrow> real"
  float_sub :: "real \<Rightarrow> real \<Rightarrow> real"
  float_div :: "real \<Rightarrow> real \<Rightarrow> real"
  float_is_zero :: "real \<Rightarrow> real \<Rightarrow> bool"
  str_float :: "real \<Rightarrow> string"
  get_available_and_reserved_quantities :: "line \<Rightarrow> real \<times> real"

section \<open>Python helpers\<close>

text \<open>
  A \<open>dict\<close> keeps its keys in insertion order: an association list.
  \<open>setdefault\<close> appends a missing key and leaves a present one alone;
  \<open>dict_add f k v\<close> is \<open>d[k] += v\<close> with \<open>f\<close> for the addition and
  \<open>dict_get\<close> is \<open>d[k]\<close>, both only ever run right after \<open>setdefault\<close> on the
  same key, so the key is present.
\<close>

fun setdefault :: "'k \<Rightarrow> 'v \<Rightarrow> ('k \<times> 'v) list \<Rightarrow> ('k \<times> 'v) list" where
  "setdefault k v [] = [(k, v)]"
| "setdefault k v (p # ps) = (if fst p = k then p # ps else p # setdefault k v ps)"

fun dict_add ::
  "('v \<Rightarrow> 'v \<Rightarrow> 'v) \<Rightarrow> 'k \<Rightarrow> 'v \<Rightarrow> ('k \<times> 'v) list \<Rightarrow> ('k \<times> 'v) list" where
  "dict_add f k v [] = []"
| "dict_add f k v (p # ps) =
     (if fst p = k then (k, f (snd p) v) # ps else p # dict_add f k v ps)"

definition dict_get :: "('k \<times> 'v::zero) list \<Rightarrow> 'k \<Rightarrow> 'v" where
  "dict_get d k = (case map_of d k of Some v \<Rightarrow> v | None \<Rightarrow> 0)"

text \<open>\<open>sep.join(xs)\<close>.\<close>

fun join :: "string \<Rightarrow> string list \<Rightarrow> string" where
  "join sep [] = []"
| "join sep [x] = x"
| "join sep (x # y # ys) = x @ sep @ join sep (y # ys)"

text \<open>
  The union of singleton recordsets that \<open>mapped\<close> returns for a relational
  field: every id once, in the order of first occurrence.
\<close>

definition union_ids :: "nat list \<Rightarrow> nat list" where
  "union_ids xs = rev (remdups (rev xs))"

section \<open>The warning aggregator\<close>

text \<open>
  \<open>_compute_lot_selection_warning\<close>, for one wizard. The two accumulators
  \<open>warning_lots\<close> and \<open>warning_msgs\<close> are threaded through the three passes
  as a pair.
\<close>

type_synonym warnings = "lot list \<times> string list"

text \<open>First loop over the serial cells: count the uses of each serial.\<close>

fun serial_counter :: "line list \<Rightarrow> (lot \<times> nat) list \<Rightarrow> (lot \<times> nat) list" where
  "serial_counter [] d = d"
| "serial_counter (sl # sls) d =
     (case component_lot_id sl of
        None \<Rightarrow> serial_counter sls d
      | Some l \<Rightarrow> serial_counter sls (dict_add (+) l 1 (setdefault l 0 d)))"

definition serial_msg :: "host \<Rightarrow> lot \<Rightarrow> string" where
  "serial_msg h l = ''Serial number '' @ lot_name h l @ '' selected several times''"

text \<open>Second loop: one warning for every counted serial used more than once.\<close>

fun serial_warnings :: "host \<Rightarrow> (lot \<times> nat) list \<Rightarrow> warnings \<Rightarrow> warnings" where
  "serial_warnings h [] w = w"
| "serial_warnings h ((l, counter) # items) (warning_lots, warning_msgs) =
     (if counter > 1
      then serial_warnings h items (warning_lots @ [l], warning_msgs @ [serial_msg h l])
      else serial_warnings h items (warning_lots, warning_msgs))"

definition available_quantity :: "host \<Rightarrow> line \<Rightarrow> real" where
  "available_quantity h ll =
     (case get_available_and_reserved_quantities h ll of
        (free_qty, reserved_qty) \<Rightarrow> float_add h free_qty reserved_qty)"

definition lot_msg :: "host \<Rightarrow> lot \<Rightarrow> line \<Rightarrow> string" where
  "lot_msg h l ll =
     ''Lot '' @ lot_name h l @ '' not available at the needed qty ('' @
     str_float h (available_quantity h ll) @ ''/'' @ str_float h (lot_qty ll) @ '')''"

text \<open>The loop over the lot cells, with the dictionary \<open>lot_consumption\<close>.\<close>

fun lot_warnings :: "host \<Rightarrow> line list \<Rightarrow> (lot \<times> real) list \<Rightarrow> warnings \<Rightarrow> warnings" where
  "lot_warnings h [] lot_consumption w = w"
| "lot_warnings h (ll # lls) lot_consumption (warning_lots, warning_msgs) =
     (case component_lot_id ll of
        None \<Rightarrow> lot_warnings h lls lot_consumption (warning_lots, warning_msgs)
      | Some l \<Rightarrow>
          (let d = setdefault l 0 lot_consumption;
               w = (if float_sub h (available_quantity h ll) (dict_get d l) < lot_qty ll
                    then (warning_lots @ [l], warning_msgs @ [lot_msg h l ll])
                    else (warning_lots, warning_msgs))
           in lot_warnings h lls (dict_add (float_add h) l (lot_qty ll) d) w))"

definition not_filled_msg :: "host \<Rightarrow> lot list \<Rightarrow> string" where
  "not_filled_msg h lots =
     ''Some cells are not filled for some finished serial number ('' @
     join '', '' (map (lot_name h) lots) @ '')''"

text \<open>The cells of a chosen finished unit that are still empty.\<close>

definition not_filled_warnings :: "host \<Rightarrow> line list \<Rightarrow> warnings \<Rightarrow> warnings" where
  "not_filled_warnings h cells w =
     (let not_filled_lines =
            filter (\<lambda>l. finished_lot_id l \<noteq> None \<and> component_lot_id l = None) cells
      in if not_filled_lines \<noteq> []
         then (let not_filled_finshed_lots =
                     union_ids (List.map_filter finished_lot_id not_filled_lines)
               in (fst w @ not_filled_finshed_lots,
                   snd w @ [not_filled_msg h not_filled_finshed_lots]))
         else w)"

definition serial_lines :: "host \<Rightarrow> line list \<Rightarrow> line list" where
  "serial_lines h cells =
     filter (\<lambda>l. product_tracking h (component_id l) = TrackSerial) cells"

definition lot_lines :: "host \<Rightarrow> line list \<Rightarrow> line list" where
  "lot_lines h cells =
     filter (\<lambda>l. product_tracking h (component_id l) = TrackLot) cells"

definition collect_warnings :: "host \<Rightarrow> line list \<Rightarrow> warnings" where
  "collect_warnings h cells =
     not_filled_warnings h cells
       (lot_warnings h (lot_lines h cells) []
          (serial_warnings h (serial_counter (serial_lines h cells) []) ([], [])))"

text \<open>
  The three computed fields of the wizard. The count is the length of the
  recordset collected in \<open>warning_lots\<close>, repetitions included; the
  many-to-many field is given that recordset.
\<close>

record warning_fields =
  lot_selection_warning_msg :: string
  lot_selection_warning_ids :: "lot list"
  lot_selection_warning_count :: nat

definition compute_lot_selection_warning :: "host \<Rightarrow> line list \<Rightarrow> warning_fields" where
  "compute_lot_selection_warning h cells =
     (case collect_warnings h cells of
        (warning_lots, warning_msgs) \<Rightarrow>
          \<lparr> lot_selection_warning_msg = join '', '' warning_msgs,
            lot_selection_warning_ids = warning_lots,
            lot_selection_warning_count = length warning_lots \<rparr>)"

subsection \<open>The lot pass as the specification words it\<close>

text \<open>
  The specification describes the lot pass row by row: walking the lot cells
  in order, the quantity already drawn from a cell's lot is the sum of the
  quantities of the earlier cells that carry the same lot (added one after
  the other, from 0), and the cell is flagged when the lot's available
  quantity less that sum is smaller than the cell's own quantity. A cell with
  no lot draws nothing and is not flagged by this pass.
\<close>

definition consumed_before :: "host \<Rightarrow> line list \<Rightarrow> nat \<Rightarrow> real" where
  "consumed_before h rows i =
     foldl (float_add h) 0
       (map lot_qty
          (filter (\<lambda>r. component_lot_id r = component_lot_id (rows ! i)) (take i rows)))"

definition shortfall_spec :: "host \<Rightarrow> line list \<Rightarrow> nat \<Rightarrow> bool" where
  "shortfall_spec h rows i =
     (component_lot_id (rows ! i) \<noteq> None \<and>
      float_sub h (available_quantity h (rows ! i)) (consumed_before h rows i)
        < lot_qty (rows ! i))"

definition flagged_rows :: "host \<Rightarrow> line list \<Rightarrow> line list" where
  "flagged_rows h rows = map ((!) rows) (filter (shortfall_spec h rows) [0..<length rows])"

definition row_lot_msg :: "host \<Rightarrow> line \<Rightarrow> string" where
  "row_lot_msg h r = (case component_lot_id r of Some l \<Rightarrow> lot_msg h l r | None \<Rightarrow> [])"

text \<open>
  Two notions used only to state and prove properties of the lot pass: the
  quantity the cells of a prefix draw from one lot, and the flagged cells among
  the \<open>n\<close> cells from index \<open>a\<close> on.
\<close>

definition consumed :: "host \<Rightarrow> line list \<Rightarrow> lot \<Rightarrow> real" where
  "consumed h pre l =
     foldl (float_add h) 0 (map lot_qty (filter (\<lambda>r. component_lot_id r = Some l) pre))"

definition flagged_from :: "host \<Rightarrow> line list \<Rightarrow> nat \<Rightarrow> nat \<Rightarrow> line list" where
  "flagged_from h rows a n = map ((!) rows) (filter (shortfall_spec h rows) [a..<a + n])"

text \<open>
  The accumulators are consistent when they are empty together and no message
  is the empty string.
\<close>

definition wf_warnings :: "warnings \<Rightarrow> bool" where
  "wf_warnings w = ((fst w = [] \<longleftrightarrow> snd w = []) \<and> (\<forall>m\<in>set (snd w). m \<noteq> []))"

section \<open>The matrix line generator\<close>

text \<open>
  \<open>int(x)\<close> on a float truncates towards zero; \<open>/\<close> raises on a zero
  divisor; \<open>"%s" % n\<close> writes an integer in decimal.
\<close>

definition py_int :: "real \<Rightarrow> int" where
  "py_int x = (if 0 \<le> x then \<lfloor>x\<rfloor> else \<lceil>x\<rceil>)"

definition py_div :: "host \<Rightarrow> real \<Rightarrow> real \<Rightarrow> py_error + real" where
  "py_div h a b = (if b = 0 then Inl ZeroDivisionError else Inr (float_div h a b))"

fun str_nat :: "nat \<Rightarrow> string" where
  "str_nat n =
     (if n < 10 then [''0123456789'' ! n]
      else str_nat (n div 10) @ [''0123456789'' ! (n mod 10)])"

declare str_nat.simps [simp del]

text \<open>
  A manufacturing order as the generator reads it: its quantity and its
  component moves, each with its product, its quantity in the product's unit
  and, when it comes from the bill of materials, the quantities of the bill's
  line and of the bill.
\<close>

record bom_line =
  bom_line_product_qty :: real
  bom_product_qty :: real

record stock_move =
  move_product_id :: product
  move_product_qty :: real
  bom_line_id :: "bom_line option"

record production =
  mo_id :: nat
  production_product_qty :: real
  move_raw_ids :: "stock_move list"

type_synonym component_tuple = "product \<times> nat \<times> real"

definition qty_per_finished_unit ::
  "host \<Rightarrow> production \<Rightarrow> stock_move \<Rightarrow> py_error + real" where
  "qty_per_finished_unit h p move =
     (case bom_line_id move of
        Some boml \<Rightarrow> py_div h (bom_line_product_qty boml) (bom_product_qty boml)
      | None \<Rightarrow> py_div h (move_product_qty move) (production_product_qty p))"

text \<open>The tuples \<open>(component, i, 1)\<close> for \<open>i\<close> in \<open>range(1, int(q) + 1)\<close>.\<close>

definition serial_tuples :: "product \<Rightarrow> real \<Rightarrow> component_tuple list" where
  "serial_tuples c q = map (\<lambda>i. (c, nat i, 1)) [1..py_int q]"

text \<open>
  The body of the loop over the moves: the tuples one move appends to
  \<open>tracked_components\<close>, or the error it raises.
\<close>

definition move_components ::
  "host \<Rightarrow> bool \<Rightarrow> production \<Rightarrow> stock_move \<Rightarrow> py_error + component_tuple list" where
  "move_components h incl p move =
     (if float_is_zero h (move_product_qty move) (uom_rounding h (move_product_id move))
      then Inr []
      else (case qty_per_finished_unit h p move of
              Inl e \<Rightarrow> Inl e
            | Inr q \<Rightarrow>
                if product_tracking h (move_product_id move) = TrackSerial
                then Inr (serial_tuples (move_product_id move) q)
                else if product_tracking h (move_product_id move) = TrackLot \<and> incl
                then Inr [(move_product_id move, 0, q)]
                else Inr []))"

fun tracked_components ::
  "host \<Rightarrow> bool \<Rightarrow> production \<Rightarrow> stock_move list \<Rightarrow> component_tuple list
     \<Rightarrow> py_error + component_tuple list" where
  "tracked_components h incl p [] tc = Inr tc"
| "tracked_components h incl p (move # moves) tc =
     (case move_components h incl p move of
        Inl e \<Rightarrow> Inl e
      | Inr cs \<Rightarrow> tracked_components h incl p moves (tc @ cs))"

text \<open>
  \<open>_prepare_matrix_line\<close>. The only caller passes an integer \<open>number\<close>, so
  the name of the finished unit is always set; a new cell has no component
  lot yet. The translation \<open>_\<close> is the identity (no translation loaded), and
  the id of a lot picked in the form is the id of the stored lot.
\<close>

definition prepare_matrix_line :: "host \<Rightarrow> component_tuple \<Rightarrow> lot option \<Rightarrow> nat \<Rightarrow> line" where
  "prepare_matrix_line h component_tuple finished_lot number =
     (case component_tuple of
        (component, lot_no, qty) \<Rightarrow>
          \<lparr> component_id = component,
            component_column_name =
              (if lot_no > 0
               then product_display_name h component @ '' ('' @ str_nat lot_no @ '')''
               else product_display_name h component),
            lot_qty = qty,
            finished_lot_id = finished_lot,
            finished_lot_name =
              (case finished_lot of
                 Some l \<Rightarrow> lot_name h l
               | None \<Rightarrow> ''(New Lot '' @ str_nat number @ '')''),
            component_lot_id = None \<rparr>)"

text \<open>
  The loop \<open>for _i in range(int(production.product_qty))\<close>, its first argument
  the number of rounds left. \<open>current_lot\<close> is \<open>False\<close> at the start of every
  round.
\<close>

fun matrix_loop ::
  "host \<Rightarrow> component_tuple list \<Rightarrow> nat \<Rightarrow> lot list \<Rightarrow> nat \<Rightarrow> line list \<Rightarrow> line list" where
  "matrix_loop h tc 0 finished_lots new_lot_number matrix_lines = matrix_lines"
| "matrix_loop h tc (Suc k) [] new_lot_number matrix_lines =
     matrix_loop h tc k [] (new_lot_number + 1)
       (matrix_lines @ map (\<lambda>c. prepare_matrix_line h c None (new_lot_number + 1)) tc)"
| "matrix_loop h tc (Suc k) (current_lot # lots) new_lot_number matrix_lines =
     matrix_loop h tc k (filter (\<lambda>l. l \<noteq> current_lot) (current_lot # lots)) new_lot_number
       (matrix_lines @ map (\<lambda>c. prepare_matrix_line h c (Some current_lot) new_lot_number) tc)"

definition get_matrix_lines ::
  "host \<Rightarrow> bool \<Rightarrow> production \<Rightarrow> lot list \<Rightarrow> py_error + line list" where
  "get_matrix_lines h incl production finished_lots =
     (case tracked_components h incl production (move_raw_ids production) [] of
        Inl e \<Rightarrow> Inl e
      | Inr tc \<Rightarrow>
          Inr (matrix_loop h tc (nat (py_int (production_product_qty production)))
                 finished_lots 0 []))"

text \<open>
  The finished units of the rounds, in order, each with the running number of
  new lots, and the rows of one round: the loop's result is the rows of its
  rounds, one after the other.
\<close>

fun unit_labels :: "nat \<Rightarrow> lot list \<Rightarrow> nat \<Rightarrow> (lot option \<times> nat) list" where
  "unit_labels 0 finished_lots n = []"
| "unit_labels (Suc k) [] n = (None, n + 1) # unit_labels k [] (n + 1)"
| "unit_labels (Suc k) (l # lots) n =
     (Some l, n) # unit_labels k (filter (\<lambda>x. x \<noteq> l) (l # lots)) n"

definition group_rows :: "host \<Rightarrow> component_tuple list \<Rightarrow> lot option \<times> nat \<Rightarrow> line list" where
  "group_rows h tc u = map (\<lambda>c. prepare_matrix_line h c (fst u) (snd u)) tc"

text \<open>No move that the generator keeps divides by zero.\<close>

definition no_zero_division :: "host \<Rightarrow> production \<Rightarrow> bool" where
  "no_zero_division h p =
     list_all (\<lambda>m. float_is_zero h (move_product_qty m) (uom_rounding h (move_product_id m)) \<or>
                    (case bom_line_id m of
                       Some boml \<Rightarrow> bom_product_qty boml \<noteq> 0
                     | None \<Rightarrow> production_product_qty p \<noteq> 0))
       (move_raw_ids p)"

text \<open>A component that is not tracked by lots.\<close>

definition not_lot :: "host \<Rightarrow> product \<Rightarrow> bool" where
  "not_lot h c = (product_tracking h c \<noteq> TrackLot)"

section \<open>The wizard\<close>

record wizard =
  production_id :: production
  finished_lot_ids :: "lot list"
  line_ids :: "line list"
  include_lots :: bool

text \<open>
  \<open>_onchange_finished_lot_ids\<close>: the cells are discarded and rebuilt from the
  generator's rows.
\<close>

definition onchange_finished_lot_ids :: "host \<Rightarrow> wizard \<Rightarrow> py_error + wizard" where
  "onchange_finished_lot_ids h rec =
     (case get_matrix_lines h (include_lots rec) (production_id rec) (finished_lot_ids rec) of
        Inl e \<Rightarrow> Inl e
      | Inr matrix_lines \<Rightarrow> Inr (rec\<lparr> line_ids := matrix_lines \<rparr>))"

section \<open>Commit\<close>

text \<open>
  \<open>button_validate\<close> changes the database only through methods of the host
  (splitting the order, writing on an order, confirming it, reserving a move,
  writing on a move line, marking an order done). The model records each such
  call, in order, in a trace; the trace is the state the function mutates.
  What the host answers (whether a call raises, the orders a split returns,
  the fields read back from orders, moves and move lines) may depend on every
  call made before, so each answer is a function of the trace so far.
\<close>

type_synonym mo = nat

datatype event =
    Split_productions mo "real list"
  | Write_lot_producing mo lot
  | Action_confirm mo
  | Update_reserved_quantity nat real real nat
  | Update_reserved_quantity_lot nat real real nat "lot option"
  | Write_qty_done nat real
  | Button_mark_done mo

record host_ops =
  raises :: "event list \<Rightarrow> event \<Rightarrow> py_error option"
  split_result :: "event list \<Rightarrow> mo list"
  moves_of :: "event list \<Rightarrow> mo \<Rightarrow> nat list"
  lot_producing_id :: "event list \<Rightarrow> mo \<Rightarrow> lot option"
  move_product :: "event list \<Rightarrow> nat \<Rightarrow> product"
  product_uom_qty :: "event list \<Rightarrow> nat \<Rightarrow> real"
  location_id :: "event list \<Rightarrow> nat \<Rightarrow> nat"
  move_line_ids :: "event list \<Rightarrow> nat \<Rightarrow> nat list"
  move_line_product_qty :: "event list \<Rightarrow> nat \<Rightarrow> real"

text \<open>One call of a host method: it is recorded, and it may raise.\<close>

definition call :: "host_ops \<Rightarrow> event \<Rightarrow> event list \<Rightarrow> event list \<times> py_error option" where
  "call ops e tr = (tr @ [e], raises ops tr e)"

text \<open>\<open>for line in move.move_line_ids: line.write({"qty_done": line.product_qty})\<close>\<close>

fun write_done_loop ::
  "host_ops \<Rightarrow> nat list \<Rightarrow> event list \<Rightarrow> event list \<times> py_error option" where
  "write_done_loop ops [] tr = (tr, None)"
| "write_done_loop ops (mline # mlines) tr =
     (case call ops (Write_qty_done mline (move_line_product_qty ops tr mline)) tr of
        (tr1, Some e) \<Rightarrow> (tr1, Some e)
      | (tr1, None) \<Rightarrow> write_done_loop ops mlines tr1)"

text \<open>
  The cells of the order's finished unit (by lot or by name) for the move's
  product. Reading \<open>lot_qty\<close> on more than one cell raises (a field is read on
  a single record).
\<close>

definition matching_lines ::
  "host \<Rightarrow> host_ops \<Rightarrow> event list \<Rightarrow> line list \<Rightarrow> mo \<Rightarrow> nat \<Rightarrow> line list" where
  "matching_lines h ops tr cells m move =
     filter (\<lambda>l. (finished_lot_id l = lot_producing_id ops tr m \<or>
                  Some (finished_lot_name l) = map_option (lot_name h) (lot_producing_id ops tr m)) \<and>
                 component_id l = move_product ops tr move) cells"

definition reserve_move ::
  "host \<Rightarrow> host_ops \<Rightarrow> line list \<Rightarrow> mo \<Rightarrow> nat \<Rightarrow> event list \<Rightarrow> event list \<times> py_error option" where
  "reserve_move h ops cells m move tr =
     (case matching_lines h ops tr cells m move of
        [] \<Rightarrow>
          call ops (Update_reserved_quantity move (product_uom_qty ops tr move)
                      (product_uom_qty ops tr move) (location_id ops tr move)) tr
      | [matrix_line] \<Rightarrow>
          call ops (Update_reserved_quantity_lot move (product_uom_qty ops tr move)
                      (lot_qty matrix_line) (location_id ops tr move)
                      (component_lot_id matrix_line)) tr
      | _ \<Rightarrow> (tr, Some ValueError))"

text \<open>\<open>for move in mo.move_raw_ids + mo.move_byproduct_ids\<close>\<close>

fun moves_loop ::
  "host \<Rightarrow> host_ops \<Rightarrow> line list \<Rightarrow> mo \<Rightarrow> nat list \<Rightarrow> event list
     \<Rightarrow> event list \<times> py_error option" where
  "moves_loop h ops cells m [] tr = (tr, None)"
| "moves_loop h ops cells m (move # moves) tr =
     (case reserve_move h ops cells m move tr of
        (tr1, Some e) \<Rightarrow> (tr1, Some e)
      | (tr1, None) \<Rightarrow>
          (case write_done_loop ops (move_line_ids ops tr1 move) tr1 of
             (tr2, Some e) \<Rightarrow> (tr2, Some e)
           | (tr2, None) \<Rightarrow> moves_loop h ops cells m moves tr2))"

text \<open>
  \<open>for index, finished_lot in enumerate(self.finished_lot_ids)\<close>; \<open>mos[index]\<close>
  raises past the end of \<open>mos\<close>.
\<close>

fun lots_loop ::
  "host \<Rightarrow> host_ops \<Rightarrow> line list \<Rightarrow> mo list \<Rightarrow> nat \<Rightarrow> lot list \<Rightarrow> event list
     \<Rightarrow> event list \<times> py_error option" where
  "lots_loop h ops cells mos index [] tr = (tr, None)"
| "lots_loop h ops cells mos index (finished_lot # lots) tr =
     (if index < length mos
      then (case call ops (Write_lot_producing (mos ! index) finished_lot) tr of
              (tr1, Some e) \<Rightarrow> (tr1, Some e)
            | (tr1, None) \<Rightarrow>
                (case call ops (Action_confirm (mos ! index)) tr1 of
                   (tr2, Some e) \<Rightarrow> (tr2, Some e)
                 | (tr2, None) \<Rightarrow>
                     (case moves_loop h ops cells (mos ! index)
                             (moves_of ops tr2 (mos ! index)) tr2 of
                        (tr3, Some e) \<Rightarrow> (tr3, Some e)
                      | (tr3, None) \<Rightarrow> lots_loop h ops cells mos (index + 1) lots tr3)))
      else (tr, Some IndexError))"

text \<open>\<open>for mo in mos: mo.button_mark_done()\<close>\<close>

fun mark_done_loop :: "host_ops \<Rightarrow> mo list \<Rightarrow> event list \<Rightarrow> event list \<times> py_error option" where
  "mark_done_loop ops [] tr = (tr, None)"
| "mark_done_loop ops (m # ms) tr =
     (case call ops (Button_mark_done m) tr of
        (tr1, Some e) \<Rightarrow> (tr1, Some e)
      | (tr1, None) \<Rightarrow> mark_done_loop ops ms tr1)"

text \<open>
  \<open>mos\<close> is the recordset the split returns, or the Python list
  \<open>[current_mo]\<close>; only a recordset has \<open>ids\<close>.
\<close>

datatype orders = Recordset "mo list" | PyList "mo list"

fun records :: "orders \<Rightarrow> mo list" where
  "records (Recordset ms) = ms"
| "records (PyList ms) = ms"

fun ids :: "orders \<Rightarrow> py_error + mo list" where
  "ids (Recordset ms) = Inr ms"
| "ids (PyList ms) = Inl AttributeError"

text \<open>Lines 225 to 229: the orders the commit works on.\<close>

definition commit_orders :: "host_ops \<Rightarrow> wizard \<Rightarrow> event list \<times> (py_error + orders)" where
  "commit_orders ops self =
     (let current_mo = production_id self
      in if production_product_qty current_mo > 1
         then (case call ops (Split_productions (mo_id current_mo)
                                (map (\<lambda>i. 1) (finished_lot_ids self))) [] of
                 (tr, Some e) \<Rightarrow> (tr, Inl e)
               | (tr, None) \<Rightarrow> (tr, Inr (Recordset (split_result ops tr))))
         else ([], Inr (PyList [mo_id current_mo])))"

text \<open>
  \<open>button_validate\<close>, on one wizard: the trace of the host calls made, and
  the error raised or the ids in the domain of the action returned.
\<close>

definition button_validate ::
  "host \<Rightarrow> host_ops \<Rightarrow> wizard \<Rightarrow> event list \<times> (py_error + mo list)" where
  "button_validate h ops self =
     (if lot_selection_warning_count (compute_lot_selection_warning h (line_ids self)) > 0
      then ([], Inl (UserError (''Some issues has been detected in your selection: '' @
                       lot_selection_warning_msg (compute_lot_selection_warning h (line_ids self)))))
      else (case commit_orders ops self of
              (tr, Inl e) \<Rightarrow> (tr, Inl e)
            | (tr, Inr mos) \<Rightarrow>
                (case lots_loop h ops (line_ids self) (records mos) 0 (finished_lot_ids self) tr of
                   (tr1, Some e) \<Rightarrow> (tr1, Inl e)
                 | (tr1, None) \<Rightarrow>
                     (case mark_done_loop ops (records mos) tr1 of
                        (tr2, Some e) \<Rightarrow> (tr2, Inl e)
                      | (tr2, None) \<Rightarrow> (tr2, ids mos)))))"




section \<open>Tags\<close>

text \<open>
  \<open>random.randint(a, b)\<close> returns an integer between \<open>a\<close> and \<open>b\<close>, both
  included, chosen by the generator's next draw \<open>r\<close>.
\<close>

definition randint :: "nat \<Rightarrow> int \<Rightarrow> int \<Rightarrow> int" where
  "randint r a b = a + int r mod (b - a + 1)"

definition get_default_color :: "nat \<Rightarrow> int" where
  "get_default_color r = randint r 1 11"

record mrp_tag =
  tag_name :: string
  tag_color :: int

text \<open>A new tag: the default of a field is computed when no value is supplied.\<close>

definition create_tag :: "nat \<Rightarrow> string \<Rightarrow> int option \<Rightarrow> mrp_tag" where
  "create_tag r n c =
     \<lparr> tag_name = n,
       tag_color = (case c of Some v \<Rightarrow> v | None \<Rightarrow> get_default_color r) \<rparr>"

section \<open>Examples\<close>

text \<open>
  A small database used to run the definitions: product 1 is tracked by
  serial numbers, product 2 by lots, every lot has 3 units free and 2 reserved.
  Its arithmetic is exact, as that of floats is on the small integers and
  halves the examples use.
\<close>

definition demo_host :: host where
  "demo_host =
     \<lparr> product_tracking = (\<lambda>c. if c = 1 then TrackSerial else if c = 2 then TrackLot else TrackNone),
       product_display_name = (\<lambda>c. if c = 1 then ''Board'' else ''Paint''),
       uom_rounding = (\<lambda>c. 1 / 100),
       lot_name = (\<lambda>l. ''L'' @ str_nat l),
       float_add = (+), float_sub = (-), float_div = (/),
       float_is_zero = (\<lambda>v r. \<bar>v\<bar> < r / 2),
       str_float = (\<lambda>x. str_nat (nat \<lfloor>x\<rfloor>) @ ''.0''),
       get_available_and_reserved_quantities = (\<lambda>l. (3, 2)) \<rparr>"

definition demo_cell :: "product \<Rightarrow> real \<Rightarrow> lot option \<Rightarrow> lot option \<Rightarrow> line" where
  "demo_cell c q f l =
     \<lparr> component_id = c, component_column_name = ''cell'', lot_qty = q,
       finished_lot_id = f, finished_lot_name = ''unit'', component_lot_id = l \<rparr>"

definition demo_move :: "product \<Rightarrow> real \<Rightarrow> bom_line option \<Rightarrow> stock_move" where
  "demo_move c q b = \<lparr> move_product_id = c, move_product_qty = q, bom_line_id = b \<rparr>"

definition demo_order :: "real \<Rightarrow> stock_move list \<Rightarrow> production" where
  "demo_order n ms = \<lparr> mo_id = 1, production_product_qty = n, move_raw_ids = ms \<rparr>"

definition demo_wizard :: wizard where
  "demo_wizard =
     \<lparr> production_id =
         demo_order 1
           [demo_move 1 1 (Some \<lparr> bom_line_product_qty = 1, bom_product_qty = 1 \<rparr>),
            demo_move 2 3 None],
       finished_lot_ids = [], line_ids = [], include_lots = True \<rparr>"

text \<open>
  A host for running the commit: no call raises, a split returns the orders
  21 and 22, the order \<open>m\<close> has the single move \<open>10 m\<close> of product 1 with one
  move line, and an order's finished lot is the one last written on it.
\<close>

fun producing :: "event list \<Rightarrow> mo \<Rightarrow> lot option" where
  "producing [] m = None"
| "producing (Write_lot_producing m' l # tr) m =
     (case producing tr m of Some l' \<Rightarrow> Some l' | None \<Rightarrow> if m' = m then Some l else None)"
| "producing (e # tr) m = producing tr m"

definition demo_ops :: host_ops where
  "demo_ops =
     \<lparr> raises = (\<lambda>tr e. None),
       split_result = (\<lambda>tr. [21, 22]),
       moves_of = (\<lambda>tr m. [10 * m]),
       lot_producing_id = producing,
       move_product = (\<lambda>tr move. 1),
       product_uom_qty = (\<lambda>tr move. 1),
       location_id = (\<lambda>tr move. 5),
       move_line_ids = (\<lambda>tr move. [move + 1]),
       move_line_product_qty = (\<lambda>tr mline. 1) \<rparr>"

definition demo_commit :: "real \<Rightarrow> lot list \<Rightarrow> line list \<Rightarrow> wizard" where
  "demo_commit n lots cells =
     \<lparr> production_id =
         demo_order n [demo_move 1 n (Some \<lparr> bom_line_product_qty = 1, bom_product_qty = 1 \<rparr>)],
       finished_lot_ids = lots, line_ids = cells, include_lots = True \<rparr>"

section \<open>Properties of the warning aggregator\<close>

subsection \<open>Dictionaries\<close>



lemma map_of_setdefault:
  "map_of (setdefault k v d) =
     (case map_of d k of None \<Rightarrow> (map_of d)(k \<mapsto> v) | Some _ \<Rightarrow> map_of d)"
  by (induction d) (auto split: option.splits)

lemma map_of_dict_add:
  "map_of (dict_add f k v d) =
     (case map_of d k of None \<Rightarrow> map_of d | Some c \<Rightarrow> (map_of d)(k \<mapsto> f c v))"
  by (induction d) (auto split: option.splits)

lemma dict_get_step:
  "dict_get (dict_add f l v (setdefault l 0 d)) k =
     (if k = l then f (dict_get d k) v else dict_get d k)"
  by (auto simp: dict_get_def map_of_dict_add map_of_setdefault split: option.splits)

lemma dict_get_setdefault: "dict_get (setdefault l 0 d) k = dict_get d k"
  by (auto simp: dict_get_def map_of_setdefault split: option.splits)



subsection \<open>The serial pass\<close>

lemma serial_warnings_eq:
  "serial_warnings h items w =
     (fst w @ map fst (filter (\<lambda>p. snd p > 1) items),
      snd w @ map (\<lambda>p. serial_msg h (fst p)) (filter (\<lambda>p. snd p > 1) items))"
  by (induction h items w rule: serial_warnings.induct) auto





lemma serial_msg_not_lot_msg: "lot_msg h l r \<noteq> serial_msg h l'"
  by (simp add: lot_msg_def serial_msg_def)


lemma not_filled_msg_not_lot_msg: "not_filled_msg h lots \<noteq> lot_msg h l r"
  by (simp add: not_filled_msg_def lot_msg_def)

subsection \<open>The lot pass\<close>

lemma flagged_from_0: "flagged_from h rows a 0 = []"
  by (simp add: flagged_from_def)

lemma flagged_from_Suc:
  "flagged_from h rows a (Suc n) =
     (if shortfall_spec h rows a then [rows ! a] else []) @ flagged_from h rows (Suc a) n"
  by (simp add: flagged_from_def upt_conv_Cons del: upt_Suc)

lemma flagged_rows_from: "flagged_rows h rows = flagged_from h rows 0 (length rows)"
  by (simp add: flagged_rows_def flagged_from_def)

text \<open>
  The loop, started after a prefix \<open>pre\<close> of the cells with the dictionary
  holding what the prefix drew, appends the flagged cells of the rest.
\<close>

lemma lot_warnings_general:
  "(\<And>l. dict_get d l = consumed h pre l) \<Longrightarrow>
   lot_warnings h rest d (wl, wm) =
     (wl @ List.map_filter component_lot_id
             (flagged_from h (pre @ rest) (length pre) (length rest)),
      wm @ map (row_lot_msg h) (flagged_from h (pre @ rest) (length pre) (length rest)))"
proof (induction rest arbitrary: pre d wl wm)
  case Nil
  then show ?case by (simp add: List.map_filter_simps flagged_from_0)
next
  case (Cons ll lls)
  show ?case
  proof (cases "component_lot_id ll")
    case None
    have inv: "\<And>l. dict_get d l = consumed h (pre @ [ll]) l"
      using Cons.prems None by (simp add: consumed_def)
    have nf: "\<not> shortfall_spec h (pre @ ll # lls) (length pre)"
      using None by (simp add: shortfall_spec_def)
    have "flagged_from h (pre @ ll # lls) (length pre) (length (ll # lls)) =
          flagged_from h ((pre @ [ll]) @ lls) (length (pre @ [ll])) (length lls)"
      using nf by (simp add: flagged_from_Suc)
    then show ?thesis
      using Cons.IH[OF inv, of wl wm] None by simp
  next
    case (Some l)
    let ?d = "dict_add (float_add h) l (lot_qty ll) (setdefault l 0 d)"
    have inv: "\<And>k. dict_get ?d k = consumed h (pre @ [ll]) k"
      using Cons.prems Some by (auto simp: consumed_def dict_get_step)
    have cb: "consumed_before h (pre @ ll # lls) (length pre) = dict_get (setdefault l 0 d) l"
      using Cons.prems[of l] Some
      by (simp add: consumed_before_def consumed_def dict_get_setdefault)
    show ?thesis
    proof (cases "float_sub h (available_quantity h ll) (dict_get (setdefault l 0 d) l) < lot_qty ll")
      case True
      then have fl: "shortfall_spec h (pre @ ll # lls) (length pre)"
        using Some cb by (simp add: shortfall_spec_def)
      have "flagged_from h (pre @ ll # lls) (length pre) (length (ll # lls)) =
          ll # flagged_from h ((pre @ [ll]) @ lls) (length (pre @ [ll])) (length lls)"
        using fl by (simp add: flagged_from_Suc)
      then show ?thesis
        using Cons.IH[OF inv, of "wl @ [l]" "wm @ [lot_msg h l ll]"] Some True
        by (simp add: List.map_filter_simps row_lot_msg_def Let_def)
    next
      case False
      then have fl: "\<not> shortfall_spec h (pre @ ll # lls) (length pre)"
        using Some cb by (simp add: shortfall_spec_def)
      have "flagged_from h (pre @ ll # lls) (length pre) (length (ll # lls)) =
          flagged_from h ((pre @ [ll]) @ lls) (length (pre @ [ll])) (length lls)"
        using fl by (simp add: flagged_from_Suc)
      then show ?thesis
        using Cons.IH[OF inv, of wl wm] Some False
        by (simp add: Let_def)
    qed
  qed
qed

lemma lot_warnings_append:
  "\<exists>A B. lot_warnings h lls d w = (fst w @ A, snd w @ B) \<and> length A = length B \<and>
         (\<forall>m\<in>set B. \<exists>l r. m = lot_msg h l r)"
proof (induction lls arbitrary: d w)
  case Nil
  have "lot_warnings h [] d w = (fst w @ [], snd w @ [])" by simp
  then show ?case by (metis length_0_conv empty_iff set_empty)
next
  case (Cons ll lls)
  obtain wl wm where w: "w = (wl, wm)" by (cases w)
  show ?case
  proof (cases "component_lot_id ll")
    case None
    then show ?thesis using Cons[of d w] w by simp
  next
    case (Some l)
    let ?d = "dict_add (float_add h) l (lot_qty ll) (setdefault l 0 d)"
    show ?thesis
    proof (cases "float_sub h (available_quantity h ll) (dict_get (setdefault l 0 d) l) < lot_qty ll")
      case True
      obtain A B where AB: "lot_warnings h lls ?d (wl @ [l], wm @ [lot_msg h l ll]) =
            (fst (wl @ [l], wm @ [lot_msg h l ll]) @ A, snd (wl @ [l], wm @ [lot_msg h l ll]) @ B)"
          "length A = length B" "\<forall>m\<in>set B. \<exists>l r. m = lot_msg h l r"
        using Cons[of ?d "(wl @ [l], wm @ [lot_msg h l ll])"] by blast
      have "lot_warnings h (ll # lls) d w = (fst w @ (l # A), snd w @ (lot_msg h l ll # B))"
        using AB(1) Some True w by (simp add: Let_def)
      moreover have "length (l # A) = length (lot_msg h l ll # B)" using AB(2) by simp
      moreover have "\<forall>m\<in>set (lot_msg h l ll # B). \<exists>l r. m = lot_msg h l r"
        using AB(3) by auto
      ultimately show ?thesis by blast
    next
      case False
      then show ?thesis using Cons[of ?d w] Some w by (simp add: Let_def)
    qed
  qed
qed

subsection \<open>The pass over the empty cells, and the message\<close>

lemma set_union_ids: "set (union_ids xs) = set xs"
  by (simp add: union_ids_def)

lemma union_ids_empty: "union_ids xs = [] \<longleftrightarrow> xs = []"
  using set_union_ids[of xs] by (metis set_empty)

lemma map_filter_eq_Nil: "List.map_filter f xs = [] \<longleftrightarrow> (\<forall>x\<in>set xs. f x = None)"
  by (induction xs) (auto simp: List.map_filter_simps split: option.splits)

lemma set_map_filter: "set (List.map_filter f xs) = {y. \<exists>x\<in>set xs. f x = Some y}"
  by (induction xs) (auto simp: List.map_filter_simps split: option.splits)

lemma join_eq_Nil: "(\<forall>m\<in>set ms. m \<noteq> []) \<Longrightarrow> join sep ms = [] \<longleftrightarrow> ms = []"
  by (induction sep ms rule: join.induct) auto

lemma join_last: "ms \<noteq> [] \<Longrightarrow> \<exists>pre. join sep ms = pre @ last ms"
proof (induction sep ms rule: join.induct)
  case (3 sep x y ys)
  then obtain pre where "join sep (y # ys) = pre @ last (y # ys)" by auto
  then have "join sep (x # y # ys) = (x @ sep @ pre) @ last (x # y # ys)" by simp
  then show ?case by blast
qed auto

lemma wf_serial: "wf_warnings (serial_warnings h items ([], []))"
  by (auto simp: wf_warnings_def serial_warnings_eq serial_msg_def)

lemma wf_lot:
  assumes "wf_warnings w"
  shows "wf_warnings (lot_warnings h lls d w)"
proof -
  obtain A B where AB: "lot_warnings h lls d w = (fst w @ A, snd w @ B)" "length A = length B"
      "\<forall>m\<in>set B. \<exists>l r. m = lot_msg h l r"
    using lot_warnings_append by blast
  have "\<forall>m\<in>set B. m \<noteq> []" using AB(3) by (auto simp: lot_msg_def)
  moreover have "A = [] \<longleftrightarrow> B = []" using AB(2) by auto
  ultimately show ?thesis using assms AB(1) by (auto simp: wf_warnings_def)
qed

lemma wf_not_filled: "wf_warnings w \<Longrightarrow> wf_warnings (not_filled_warnings h ls w)"
  by (auto simp: wf_warnings_def not_filled_warnings_def Let_def union_ids_empty
        map_filter_eq_Nil not_filled_msg_def filter_empty_conv)

lemma wf_collect: "wf_warnings (collect_warnings h ls)"
  by (simp add: collect_warnings_def wf_not_filled wf_lot wf_serial)

subsection \<open>Claims about the aggregator\<close>

text \<open>
  C2. The aggregator treats lot consumption cumulatively and in the order of
  the cells. Its result holds, between the warnings of the serial pass and
  those about unfilled cells, the lot and the message of exactly the cells
  that the specification flags among the cells of lot-tracked components, in
  their order: the cells with a lot for which the lot's available quantity
  (free plus reserved) less the quantity the earlier cells drew from the same
  lot is smaller than the cell's quantity. No other message of the result is
  a lot warning, and the three computed fields are read off that result.
\<close>

theorem lot_pass_flags_cumulative_shortfall:
  "\<exists>sl sm nl nm.
     collect_warnings h cells =
       (sl @ List.map_filter component_lot_id
               (flagged_rows h
                  (filter (\<lambda>l. product_tracking h (component_id l) = TrackLot) cells)) @ nl,
        sm @ map (row_lot_msg h)
               (flagged_rows h
                  (filter (\<lambda>l. product_tracking h (component_id l) = TrackLot) cells)) @ nm) \<and>
     length sl = length sm \<and>
     (\<forall>m\<in>set (sm @ nm). \<forall>l r. m \<noteq> lot_msg h l r) \<and>
     lot_selection_warning_ids (compute_lot_selection_warning h cells) =
       sl @ List.map_filter component_lot_id
              (flagged_rows h
                 (filter (\<lambda>l. product_tracking h (component_id l) = TrackLot) cells)) @ nl \<and>
     lot_selection_warning_msg (compute_lot_selection_warning h cells) =
       join '', ''
         (sm @ map (row_lot_msg h)
                 (flagged_rows h
                    (filter (\<lambda>l. product_tracking h (component_id l) = TrackLot) cells)) @ nm)"
proof -
  let ?rows = "filter (\<lambda>l. product_tracking h (component_id l) = TrackLot) cells"
  let ?L = "List.map_filter component_lot_id (flagged_rows h ?rows)"
  let ?M = "map (row_lot_msg h) (flagged_rows h ?rows)"
  let ?items = "serial_counter (serial_lines h cells) []"
  let ?D = "filter (\<lambda>p. snd p > 1) ?items"
  let ?sl = "map fst ?D" and ?sm = "map (\<lambda>p. serial_msg h (fst p)) ?D"
  have sw: "serial_warnings h ?items ([], []) = (?sl, ?sm)" by (simp add: serial_warnings_eq)
  have "\<And>l. dict_get ([] :: (lot \<times> real) list) l = consumed h [] l"
    by (simp add: dict_get_def consumed_def)
  then have "lot_warnings h ?rows [] (?sl, ?sm) =
     (?sl @ List.map_filter component_lot_id
                (flagged_from h ([] @ ?rows) (length ([] :: line list)) (length ?rows)),
      ?sm @ map (row_lot_msg h)
                (flagged_from h ([] @ ?rows) (length ([] :: line list)) (length ?rows)))"
    by (rule lot_warnings_general)
  then have lw: "lot_warnings h (lot_lines h cells) [] (?sl, ?sm) = (?sl @ ?L, ?sm @ ?M)"
    by (simp add: flagged_rows_from lot_lines_def)
  obtain nl nm where nf:
      "not_filled_warnings h cells (?sl @ ?L, ?sm @ ?M) = ((?sl @ ?L) @ nl, (?sm @ ?M) @ nm)"
      "\<forall>m\<in>set nm. \<exists>ls. m = not_filled_msg h ls"
    by (cases "filter (\<lambda>l. finished_lot_id l \<noteq> None \<and> component_lot_id l = None) cells = []")
       (auto simp: not_filled_warnings_def Let_def)
  have c: "collect_warnings h cells = (?sl @ ?L @ nl, ?sm @ ?M @ nm)"
    using sw lw nf(1) by (simp add: collect_warnings_def)
  have "\<forall>m\<in>set ?sm. \<forall>l r. m \<noteq> lot_msg h l r"
    using serial_msg_not_lot_msg by (metis (no_types, lifting) imageE list.set_map)
  moreover have "\<forall>m\<in>set nm. \<forall>l r. m \<noteq> lot_msg h l r"
    using nf(2) not_filled_msg_not_lot_msg by metis
  ultimately have no: "\<forall>m\<in>set (?sm @ nm). \<forall>l r. m \<noteq> lot_msg h l r"
    by (metis Un_iff set_append)
  have "length ?sl = length ?sm" by simp
  then show ?thesis
    using c no
    by (intro exI[of _ ?sl] exI[of _ ?sm] exI[of _ nl] exI[of _ nm])
       (simp add: compute_lot_selection_warning_def)
qed

text \<open>
  A lot with 5 units available (3 free, 2 reserved) is assigned to two cells
  that ask for 3 units each: only the second cell is flagged.
\<close>

theorem lot_pass_flags_cumulative_shortfall_witness:
  "flagged_rows demo_host
     (filter (\<lambda>l. product_tracking demo_host (component_id l) = TrackLot)
        [demo_cell 2 3 (Some 11) (Some 7), demo_cell 2 3 (Some 12) (Some 7)]) =
     [demo_cell 2 3 (Some 12) (Some 7)] \<and>
   (\<exists>sl sm nl nm.
      collect_warnings demo_host
        [demo_cell 2 3 (Some 11) (Some 7), demo_cell 2 3 (Some 12) (Some 7)] =
        (sl @ [7] @ nl, sm @ [''Lot L7 not available at the needed qty (5.0/3.0)''] @ nm) \<and>
      length sl = length sm \<and>
      (\<forall>m\<in>set (sm @ nm). \<forall>l r. m \<noteq> lot_msg demo_host l r)) \<and>
   compute_lot_selection_warning demo_host
     [demo_cell 2 3 (Some 11) (Some 7), demo_cell 2 3 (Some 12) (Some 7)] =
     \<lparr> lot_selection_warning_msg = ''Lot L7 not available at the needed qty (5.0/3.0)'',
       lot_selection_warning_ids = [7],
       lot_selection_warning_count = 1 \<rparr>"
proof -
  let ?cells = "[demo_cell 2 3 (Some 11) (Some 7), demo_cell 2 3 (Some 12) (Some 7)]"
  have ll: "filter (\<lambda>l. product_tracking demo_host (component_id l) = TrackLot) ?cells = ?cells"
    by (simp add: demo_host_def demo_cell_def)
  have up: "[0..<2] = [0, 1]" by (simp add: upt_rec)
  have fr: "flagged_rows demo_host ?cells = [demo_cell 2 3 (Some 12) (Some 7)]"
    by (simp add: flagged_rows_def up shortfall_spec_def consumed_before_def
          available_quantity_def demo_host_def demo_cell_def)
  have s7: "str_nat 7 = ''7''" and s5: "str_nat 5 = ''5''" and s3: "str_nat 3 = ''3''"
    by (simp_all add: str_nat.simps)
  have msg: "row_lot_msg demo_host (demo_cell 2 3 (Some 12) (Some 7)) =
             ''Lot L7 not available at the needed qty (5.0/3.0)''"
    by (simp add: row_lot_msg_def lot_msg_def available_quantity_def demo_host_def
          demo_cell_def s7 s5 s3)
  have lot: "List.map_filter component_lot_id [demo_cell 2 3 (Some 12) (Some 7)] = [7]"
    by (simp add: List.map_filter_simps demo_cell_def)
  have "\<exists>sl sm nl nm.
      collect_warnings demo_host ?cells =
        (sl @ [7] @ nl, sm @ [''Lot L7 not available at the needed qty (5.0/3.0)''] @ nm) \<and>
      length sl = length sm \<and>
      (\<forall>m\<in>set (sm @ nm). \<forall>l r. m \<noteq> lot_msg demo_host l r)"
    using lot_pass_flags_cumulative_shortfall[of demo_host ?cells]
    unfolding ll fr lot list.map msg by blast
  moreover have "compute_lot_selection_warning demo_host ?cells =
     \<lparr> lot_selection_warning_msg = ''Lot L7 not available at the needed qty (5.0/3.0)'',
       lot_selection_warning_ids = [7],
       lot_selection_warning_count = 1 \<rparr>"
    by code_simp
  ultimately show ?thesis using fr ll by simp
qed



text \<open>
  C5. A cell whose finished unit is chosen and whose component lot is empty is
  always flagged, whatever the other cells hold: its finished lot is among the
  implicated lots, the warning count is positive, and the message ends with
  the warning about unfilled cells, which lists the finished lot by name.
\<close>

theorem unfilled_cell_flagged:
  assumes "r \<in> set cells" "finished_lot_id r = Some f" "component_lot_id r = None"
  shows "f \<in> set (lot_selection_warning_ids (compute_lot_selection_warning h cells)) \<and>
         0 < lot_selection_warning_count (compute_lot_selection_warning h cells) \<and>
         (\<exists>lots pre. f \<in> set lots \<and>
            last (snd (collect_warnings h cells)) = not_filled_msg h lots \<and>
            lot_selection_warning_msg (compute_lot_selection_warning h cells) =
              pre @ not_filled_msg h lots)"
proof -
  let ?nf = "filter (\<lambda>l. finished_lot_id l \<noteq> None \<and> component_lot_id l = None) cells"
  let ?lots = "union_ids (List.map_filter finished_lot_id ?nf)"
  let ?w = "lot_warnings h (lot_lines h cells) []
          (serial_warnings h (serial_counter (serial_lines h cells) []) ([], []))"
  have rin: "r \<in> set ?nf" using assms by simp
  then have ne: "?nf \<noteq> []" by (metis empty_iff set_empty)
  have fin: "f \<in> set ?lots" using rin assms(2) by (auto simp: set_union_ids set_map_filter)
  have c: "collect_warnings h cells = (fst ?w @ ?lots, snd ?w @ [not_filled_msg h ?lots])"
    using ne by (simp add: collect_warnings_def not_filled_warnings_def Let_def)
  obtain pre where
    pre: "join '', '' (snd ?w @ [not_filled_msg h ?lots]) = pre @ not_filled_msg h ?lots"
    using join_last[of "snd ?w @ [not_filled_msg h ?lots]" "'', ''"] by auto
  show ?thesis
    using c fin pre by (auto simp: compute_lot_selection_warning_def)
qed

theorem unfilled_cell_flagged_witness:
  "demo_cell 1 1 (Some 11) None \<in> set [demo_cell 1 1 (Some 11) None] \<and>
   finished_lot_id (demo_cell 1 1 (Some 11) None) = Some 11 \<and>
   component_lot_id (demo_cell 1 1 (Some 11) None) = None \<and>
   11 \<in> set (lot_selection_warning_ids
              (compute_lot_selection_warning demo_host [demo_cell 1 1 (Some 11) None])) \<and>
   0 < lot_selection_warning_count
         (compute_lot_selection_warning demo_host [demo_cell 1 1 (Some 11) None])"
proof -
  have a: "demo_cell 1 1 (Some 11) None \<in> set [demo_cell 1 1 (Some 11) None]" by simp
  have b: "finished_lot_id (demo_cell 1 1 (Some 11) None) = Some 11"
    by (simp add: demo_cell_def)
  have c: "component_lot_id (demo_cell 1 1 (Some 11) None) = None"
    by (simp add: demo_cell_def)
  show ?thesis using a b c unfilled_cell_flagged[OF a b c, of demo_host] by blast
qed

text \<open>
  C9. After the warning computation, the warning count is the number of
  implicated lots collected (the length of \<open>warning_lots\<close>), and it is zero
  exactly when the warning message is the empty string.
\<close>

theorem warning_count_zero_iff_no_message:
  "lot_selection_warning_count (compute_lot_selection_warning h cells) =
     length (fst (collect_warnings h cells)) \<and>
   (lot_selection_warning_count (compute_lot_selection_warning h cells) = 0 \<longleftrightarrow>
    lot_selection_warning_msg (compute_lot_selection_warning h cells) = [])"
proof -
  obtain wl wm where c: "collect_warnings h cells = (wl, wm)"
    by (cases "collect_warnings h cells")
  have wf: "wf_warnings (wl, wm)" using wf_collect[of h cells] c by simp
  then have "join '', '' wm = [] \<longleftrightarrow> wm = []"
    by (intro join_eq_Nil) (simp add: wf_warnings_def)
  then show ?thesis
    using wf c by (simp add: compute_lot_selection_warning_def wf_warnings_def)
qed

text \<open>One filled serial cell: no warning, count zero, empty message.\<close>

theorem warning_count_zero_iff_no_message_witness:
  "lot_selection_warning_count
     (compute_lot_selection_warning demo_host [demo_cell 1 1 (Some 11) (Some 8)]) = 0 \<and>
   lot_selection_warning_msg
     (compute_lot_selection_warning demo_host [demo_cell 1 1 (Some 11) (Some 8)]) = []"
proof -
  have "lot_selection_warning_count
     (compute_lot_selection_warning demo_host [demo_cell 1 1 (Some 11) (Some 8)]) = 0"
    by (simp add: compute_lot_selection_warning_def collect_warnings_def serial_lines_def
          lot_lines_def not_filled_warnings_def demo_host_def demo_cell_def)
  then show ?thesis
    using warning_count_zero_iff_no_message[of demo_host "[demo_cell 1 1 (Some 11) (Some 8)]"]
    by simp
qed

section \<open>Properties of the tag model\<close>

lemma randint_bounds: "a \<le> b \<Longrightarrow> a \<le> randint r a b \<and> randint r a b \<le> b"
proof -
  assume ab: "a \<le> b"
  then have pos: "0 < b - a + 1" by simp
  have "0 \<le> int r mod (b - a + 1)" using pos by (rule pos_mod_sign)
  moreover have "int r mod (b - a + 1) < b - a + 1" using pos by (rule pos_mod_bound)
  ultimately show ?thesis unfolding randint_def by linarith
qed

text \<open>
  C10. A tag created with no colour gets a default colour between 1 and 11,
  both included, whatever the random generator draws.
\<close>

theorem default_color_in_range:
  "1 \<le> tag_color (create_tag r n None) \<and> tag_color (create_tag r n None) \<le> 11"
  using randint_bounds[of 1 11 r] by (simp add: create_tag_def get_default_color_def)

theorem default_color_in_range_witness:
  "tag_color (create_tag 27 ''urgent'' None) = 6 \<and>
   1 \<le> tag_color (create_tag 27 ''urgent'' None) \<and>
   tag_color (create_tag 27 ''urgent'' None) \<le> 11"
proof -
  have "tag_color (create_tag 27 ''urgent'' None) = 6"
    by (simp add: create_tag_def get_default_color_def randint_def)
  then show ?thesis using default_color_in_range[of 27 "''urgent''"] by simp
qed

section \<open>Properties of the generator\<close>

subsection \<open>The two loops\<close>

lemma matrix_loop_groups:
  "matrix_loop h tc k fl n acc = acc @ concat (map (group_rows h tc) (unit_labels k fl n))"
  by (induction h tc k fl n acc rule: matrix_loop.induct) (simp_all add: group_rows_def)

lemma length_unit_labels: "length (unit_labels k fl n) = k"
  by (induction k fl n rule: unit_labels.induct) simp_all

lemma unit_labels_no_lots:
  "unit_labels k [] n = map (\<lambda>i. (None, i)) [Suc n..<Suc (n + k)]"
proof (induction k arbitrary: n)
  case 0
  then show ?case by simp
next
  case (Suc k)
  have "[Suc n..<Suc (n + Suc k)] = Suc n # [Suc (Suc n)..<Suc (Suc n + k)]"
    using upt_conv_Cons[of "Suc n" "Suc (n + Suc k)"] by simp
  then show ?case using Suc[of "Suc n"] by simp
qed

lemma tracked_components_acc:
  "tracked_components h incl p ms tc =
     (case tracked_components h incl p ms [] of Inl e \<Rightarrow> Inl e | Inr cs \<Rightarrow> Inr (tc @ cs))"
proof (induction ms arbitrary: tc)
  case Nil
  then show ?case by simp
next
  case (Cons m ms)
  show ?case
  proof (cases "move_components h incl p m")
    case (Inl e)
    then show ?thesis by simp
  next
    case (Inr cs)
    then show ?thesis
      using Cons[of "tc @ cs"] Cons[of cs] by (simp split: sum.splits)
  qed
qed


lemma tracked_components_Cons:
  "tracked_components h incl p (m # ms) [] =
     (case move_components h incl p m of
        Inl e \<Rightarrow> Inl e
      | Inr cs \<Rightarrow> (case tracked_components h incl p ms [] of
                      Inl e \<Rightarrow> Inl e | Inr tc2 \<Rightarrow> Inr (cs @ tc2)))"
proof (cases "move_components h incl p m")
  case (Inl e)
  then show ?thesis by simp
next
  case (Inr cs)
  then show ?thesis
    using tracked_components_acc[of h incl p ms cs] by simp
qed

lemma move_components_ok:
  "float_is_zero h (move_product_qty m) (uom_rounding h (move_product_id m)) \<or>
     (case bom_line_id m of Some boml \<Rightarrow> bom_product_qty boml \<noteq> 0
      | None \<Rightarrow> production_product_qty p \<noteq> 0) \<Longrightarrow>
   \<exists>cs. move_components h incl p m = Inr cs"
  by (auto simp: move_components_def qty_per_finished_unit_def py_div_def split: option.splits)

lemma tracked_components_ok:
  "list_all (\<lambda>m. float_is_zero h (move_product_qty m) (uom_rounding h (move_product_id m)) \<or>
                    (case bom_line_id m of
                       Some boml \<Rightarrow> bom_product_qty boml \<noteq> 0
                     | None \<Rightarrow> production_product_qty p \<noteq> 0)) ms \<Longrightarrow>
   \<exists>tc. tracked_components h incl p ms [] = Inr tc"
proof (induction ms)
  case Nil
  then show ?case by simp
next
  case (Cons m ms)
  then obtain cs where cs: "move_components h incl p m = Inr cs"
    using move_components_ok[of h m p incl] by auto
  from Cons obtain tc where "tracked_components h incl p ms [] = Inr tc" by auto
  then show ?case using cs by (simp add: tracked_components_Cons del: tracked_components.simps)
qed





lemma py_int_of_nat: "nat (py_int (real N)) = N"
  by (simp add: py_int_def)


lemma group_rows_label:
  "r \<in> set (group_rows h tc (None, i)) \<Longrightarrow>
     finished_lot_id r = None \<and> finished_lot_name r = ''(New Lot '' @ str_nat i @ '')''"
  by (auto simp: group_rows_def prepare_matrix_line_def split: prod.splits)



subsection \<open>Lot inclusion\<close>

lemma move_components_off:
  "move_components h False p m =
     map_sum id (filter (\<lambda>c. not_lot h (fst c))) (move_components h True p m)"
  by (auto simp: move_components_def serial_tuples_def not_lot_def filter_map comp_def
        split: sum.splits)

lemma tracked_components_off:
  "tracked_components h False p ms (filter (\<lambda>c. not_lot h (fst c)) tc) =
     map_sum id (filter (\<lambda>c. not_lot h (fst c))) (tracked_components h True p ms tc)"
proof (induction ms arbitrary: tc)
  case Nil
  then show ?case by simp
next
  case (Cons m ms)
  show ?case
  proof (cases "move_components h True p m")
    case (Inl e)
    then show ?thesis by (simp add: move_components_off)
  next
    case (Inr cs)
    then show ?thesis
      using Cons[of "tc @ cs"] by (simp add: move_components_off)
  qed
qed

lemma component_id_prepare: "component_id (prepare_matrix_line h c f n) = fst c"
  by (simp add: prepare_matrix_line_def split: prod.splits)

lemma group_rows_off:
  "group_rows h (filter (\<lambda>c. not_lot h (fst c)) tc) u =
     filter (\<lambda>r. not_lot h (component_id r)) (group_rows h tc u)"
  by (simp add: group_rows_def filter_map comp_def component_id_prepare)

lemma concat_groups_off:
  "concat (map (group_rows h (filter (\<lambda>c. not_lot h (fst c)) tc)) us) =
     filter (\<lambda>r. not_lot h (component_id r)) (concat (map (group_rows h tc) us))"
  by (induction us) (simp_all add: group_rows_off)

lemma get_matrix_lines_off:
  "get_matrix_lines h False p fl =
     map_sum id (filter (\<lambda>r. not_lot h (component_id r))) (get_matrix_lines h True p fl)"
  using tracked_components_off[of h p "move_raw_ids p" "[]"]
  by (auto simp: get_matrix_lines_def matrix_loop_groups concat_groups_off split: sum.splits)

subsection \<open>Running the generator\<close>

lemma str_nat_digits: "str_nat 1 = ''1''" "str_nat 2 = ''2''" "str_nat (Suc 0) = ''1''"
  "str_nat (Suc (Suc 0)) = ''2''"
  by (simp_all add: str_nat.simps)

lemma upto_1_1: "[1..(1::int)] = [1]"
  by (simp add: upto.simps)

lemma upto_1_2: "[1..(2::int)] = [1, 2]"
  by (simp add: upto.simps)

subsection \<open>Claims about the generator\<close>




text \<open>
  C7. Regenerating the cells with lot inclusion off and with it on either
  raises the same error, or both succeed; then the regeneration without lots
  has no cell of a lot-tracked component, and its cells of serial-tracked
  components are those of the regeneration with lots.
\<close>

theorem lots_excluded_serials_unchanged:
  "(case (onchange_finished_lot_ids h (w\<lparr>include_lots := True\<rparr>),
          onchange_finished_lot_ids h (w\<lparr>include_lots := False\<rparr>)) of
      (Inr on, Inr off) \<Rightarrow>
         lot_lines h (line_ids off) = [] \<and>
         serial_lines h (line_ids off) = serial_lines h (line_ids on)
    | (Inl e, Inl e') \<Rightarrow> e = e'
    | _ \<Rightarrow> False)"
proof (cases "get_matrix_lines h True (production_id w) (finished_lot_ids w)")
  case (Inl e)
  then show ?thesis
    by (simp add: onchange_finished_lot_ids_def get_matrix_lines_off)
next
  case (Inr rows)
  have "filter (\<lambda>l. product_tracking h (component_id l) = TrackLot)
          (filter (\<lambda>r. not_lot h (component_id r)) rows) = []"
    by (simp add: not_lot_def filter_empty_conv)
  moreover have "filter (\<lambda>l. product_tracking h (component_id l) = TrackSerial)
          (filter (\<lambda>r. not_lot h (component_id r)) rows) =
        filter (\<lambda>l. product_tracking h (component_id l) = TrackSerial) rows"
    by (auto simp: not_lot_def intro: filter_cong)
  ultimately show ?thesis
    using Inr
    by (simp add: onchange_finished_lot_ids_def get_matrix_lines_off lot_lines_def
          serial_lines_def)
qed

theorem lots_excluded_serials_unchanged_witness:
  "\<exists>on off.
     onchange_finished_lot_ids demo_host (demo_wizard\<lparr>include_lots := True\<rparr>) = Inr on \<and>
     onchange_finished_lot_ids demo_host (demo_wizard\<lparr>include_lots := False\<rparr>) = Inr off \<and>
     map component_id (line_ids on) = [1, 2] \<and>
     map component_id (line_ids off) = [1] \<and>
     lot_lines demo_host (line_ids off) = [] \<and>
     serial_lines demo_host (line_ids off) = serial_lines demo_host (line_ids on)"
proof -
  have g: "\<And>incl. get_matrix_lines demo_host incl (production_id demo_wizard) (finished_lot_ids demo_wizard) =
     Inr (prepare_matrix_line demo_host (1, 1, 1) None 1 #
          (if incl then [prepare_matrix_line demo_host (2, 0, 3) None 1] else []))"
    by (simp add: get_matrix_lines_def demo_wizard_def demo_order_def demo_move_def
        move_components_def qty_per_finished_unit_def py_div_def demo_host_def
        serial_tuples_def py_int_def upto_1_1 numeral_eq_Suc)
  obtain on where on: "onchange_finished_lot_ids demo_host (demo_wizard\<lparr>include_lots := True\<rparr>) = Inr on"
      "map component_id (line_ids on) = [1, 2]"
    using g[of True] by (simp add: onchange_finished_lot_ids_def component_id_prepare)
  obtain off where off: "onchange_finished_lot_ids demo_host (demo_wizard\<lparr>include_lots := False\<rparr>) = Inr off"
      "map component_id (line_ids off) = [1]"
    using g[of False] by (simp add: onchange_finished_lot_ids_def component_id_prepare)
  show ?thesis
    using on off lots_excluded_serials_unchanged[of demo_host demo_wizard] by simp
qed

text \<open>
  C8 (as amended). For an order with \<open>N\<close> finished units, no finished lot
  chosen and no division by zero among its moves, the generator returns the
  rows of exactly \<open>N\<close> groups, one after the other; the \<open>i\<close>-th group holds one
  row for every tracked component, none of them with a finished lot, all of
  them labelled \<open>(New Lot i)\<close>, parentheses included.
\<close>

theorem placeholder_groups_labelled:
  assumes "no_zero_division h p" "production_product_qty p = real N"
  shows "\<exists>tc groups.
     tracked_components h incl p (move_raw_ids p) [] = Inr tc \<and>
     get_matrix_lines h incl p [] = Inr (concat groups) \<and>
     length groups = N \<and>
     (\<forall>i<N. groups ! i = group_rows h tc (None, Suc i) \<and>
             (\<forall>r\<in>set (groups ! i).
                finished_lot_id r = None \<and>
                finished_lot_name r = ''(New Lot '' @ str_nat (Suc i) @ '')''))"
proof -
  obtain tc where tc: "tracked_components h incl p (move_raw_ids p) [] = Inr tc"
    using assms(1) tracked_components_ok unfolding no_zero_division_def by blast
  let ?groups = "map (\<lambda>i. group_rows h tc (None, i)) [Suc 0..<Suc N]"
  have "get_matrix_lines h incl p [] = Inr (concat ?groups)"
    using tc assms(2)
    by (simp add: get_matrix_lines_def matrix_loop_groups unit_labels_no_lots py_int_of_nat
          comp_def)
  moreover have "length ?groups = N" by simp
  moreover have "\<forall>i<N. ?groups ! i = group_rows h tc (None, Suc i) \<and>
             (\<forall>r\<in>set (?groups ! i).
                finished_lot_id r = None \<and>
                finished_lot_name r = ''(New Lot '' @ str_nat (Suc i) @ '')'')"
  proof (intro allI impI)
    fix i assume "i < N"
    then have nth: "?groups ! i = group_rows h tc (None, Suc i)"
      by (simp add: nth_map_upt del: upt_Suc)
    show "?groups ! i = group_rows h tc (None, Suc i) \<and>
             (\<forall>r\<in>set (?groups ! i).
                finished_lot_id r = None \<and>
                finished_lot_name r = ''(New Lot '' @ str_nat (Suc i) @ '')'')"
      unfolding nth using group_rows_label by blast
  qed
  ultimately show ?thesis using tc by blast
qed

text \<open>
  The label the code writes is \<open>(New Lot 1)\<close>, not \<open>New Lot 1\<close>: an order for one
  unit with one serial-tracked component.
\<close>

theorem placeholder_label_has_parentheses:
  "get_matrix_lines demo_host True
     (demo_order 1 [demo_move 1 1 (Some \<lparr> bom_line_product_qty = 1, bom_product_qty = 1 \<rparr>)]) [] =
   Inr [\<lparr> component_id = 1, component_column_name = ''Board (1)'', lot_qty = 1,
          finished_lot_id = None, finished_lot_name = ''(New Lot 1)'',
          component_lot_id = None \<rparr>] \<and>
   ''(New Lot 1)'' \<noteq> ''New Lot 1''"
  by (simp add: get_matrix_lines_def demo_order_def demo_move_def move_components_def
        qty_per_finished_unit_def py_div_def demo_host_def serial_tuples_def py_int_def
        upto_1_1 prepare_matrix_line_def str_nat_digits numeral_eq_Suc)

theorem placeholder_groups_labelled_witness:
  "no_zero_division demo_host
     (demo_order 2 [demo_move 1 1 (Some \<lparr> bom_line_product_qty = 1, bom_product_qty = 1 \<rparr>)]) \<and>
   production_product_qty
     (demo_order 2 [demo_move 1 1 (Some \<lparr> bom_line_product_qty = 1, bom_product_qty = 1 \<rparr>)]) =
     real 2 \<and>
   (\<exists>tc groups.
     tracked_components demo_host True
       (demo_order 2 [demo_move 1 1 (Some \<lparr> bom_line_product_qty = 1, bom_product_qty = 1 \<rparr>)])
       (move_raw_ids
         (demo_order 2 [demo_move 1 1 (Some \<lparr> bom_line_product_qty = 1, bom_product_qty = 1 \<rparr>)]))
       [] = Inr tc \<and>
     get_matrix_lines demo_host True
       (demo_order 2 [demo_move 1 1 (Some \<lparr> bom_line_product_qty = 1, bom_product_qty = 1 \<rparr>)])
       [] = Inr (concat groups) \<and>
     length groups = 2 \<and>
     (\<forall>i<2. groups ! i = group_rows demo_host tc (None, Suc i) \<and>
             (\<forall>r\<in>set (groups ! i).
                finished_lot_id r = None \<and>
                finished_lot_name r = ''(New Lot '' @ str_nat (Suc i) @ '')'')))"
proof -
  let ?p = "demo_order 2 [demo_move 1 1 (Some \<lparr> bom_line_product_qty = 1, bom_product_qty = 1 \<rparr>)]"
  have a: "no_zero_division demo_host ?p"
    by (simp add: no_zero_division_def demo_order_def demo_move_def)
  have b: "production_product_qty ?p = real 2" by (simp add: demo_order_def)
  show ?thesis using a b placeholder_groups_labelled[OF a b, of True] by blast
qed

section \<open>Properties of the commit\<close>










subsection \<open>Claims about the commit\<close>

text \<open>
  C1. With a warning count that is not zero, \<open>button_validate\<close> raises the
  user error that carries the warning message, and it has made no call to the
  host by then: no order is split and nothing is written. A commit that made
  any host call had a warning count of zero.
\<close>

theorem commit_rejected_on_warnings:
  "(lot_selection_warning_count (compute_lot_selection_warning h (line_ids w)) \<noteq> 0 \<longrightarrow>
      button_validate h ops w =
        ([], Inl (UserError (''Some issues has been detected in your selection: '' @
                    lot_selection_warning_msg (compute_lot_selection_warning h (line_ids w)))))) \<and>
   (fst (button_validate h ops w) \<noteq> [] \<longrightarrow>
      lot_selection_warning_count (compute_lot_selection_warning h (line_ids w)) = 0)"
  by (simp add: button_validate_def)

theorem commit_rejected_on_warnings_witness:
  "lot_selection_warning_count
     (compute_lot_selection_warning demo_host
        (line_ids (demo_commit 2 [11, 12]
           [demo_cell 1 1 (Some 11) (Some 8), demo_cell 1 1 (Some 12) None]))) \<noteq> 0 \<and>
   button_validate demo_host demo_ops
     (demo_commit 2 [11, 12] [demo_cell 1 1 (Some 11) (Some 8), demo_cell 1 1 (Some 12) None]) =
     ([], Inl (UserError (''Some issues has been detected in your selection: '' @
                 ''Some cells are not filled for some finished serial number (L12)'')))"
proof -
  let ?w = "demo_commit 2 [11, 12] [demo_cell 1 1 (Some 11) (Some 8), demo_cell 1 1 (Some 12) None]"
  have c: "lot_selection_warning_count
             (compute_lot_selection_warning demo_host (line_ids ?w)) \<noteq> 0"
    by code_simp
  have m: "lot_selection_warning_msg (compute_lot_selection_warning demo_host (line_ids ?w)) =
             ''Some cells are not filled for some finished serial number (L12)''"
    by code_simp
  show ?thesis
    using c commit_rejected_on_warnings[of demo_host ?w demo_ops] unfolding m by blast
qed



text \<open>
  When the order is not split, \<open>mos\<close> is a Python list, which has no \<open>ids\<close>:
  the commit of a single order ends in an error and returns no action, here
  after the host calls on the order have been made.
\<close>

lemma single_order_commit_returns_no_action:
  "\<not> production_product_qty (production_id w) > 1 \<Longrightarrow> snd (button_validate h ops w) \<noteq> Inr a"
  by (auto simp: button_validate_def commit_orders_def Let_def split: prod.splits option.splits)

lemma single_order_commit_run: "button_validate demo_host demo_ops (demo_commit 1 [11] [demo_cell 1 1 (Some 11) (Some 8)]) =
   ([Write_lot_producing 1 11, Action_confirm 1,
   Update_reserved_quantity_lot 10 1 1 5 (Some 8), Write_qty_done 11 1,
   Button_mark_done 1],
  Inl AttributeError)"
  by code_simp

end
